theory Spec2Isabelle
  imports Main "HOL-Library.Sublist"
begin

section \<open>The client-side authentication session manager (app/stores/auth.ts)\<close>

text \<open>
  The store of \<^verbatim>\<open>app/stores/auth.ts\<close> is embedded as state-passing functions over a
  \<open>world\<close>: the zustand state, the module variable \<open>isProcessingCallback\<close>, the two
  browser storages, and the outside world as a script of replies that the network will
  give, together with a log of the calls made. A promise that rejects or a \<open>throw\<close> is
  the \<open>Inl\<close> of a sum; \<open>try/catch/finally\<close> are case distinctions on it.
\<close>

subsection \<open>Data\<close>

text \<open>
  A value that may be \<open>undefined\<close>, \<open>null\<close> or present. The two absent values are kept
  apart: \<open>JSON.stringify\<close> keeps a property that is \<open>null\<close> and drops one that is
  \<open>undefined\<close>.
\<close>

datatype 'a nullable = Undefined | Null | Present 'a

text \<open>A JSON value, and its truthiness in \<open>a || b\<close>.\<close>

datatype json =
    JsonNull
  | JsonBool bool
  | JsonNumber int
  | JsonString string
  | JsonArray "json list"
  | JsonObject "(string \<times> json) list"

definition truthy :: "json \<Rightarrow> bool" where
  "truthy v =
     (case v of
        JsonNull \<Rightarrow> False
      | JsonBool b \<Rightarrow> b
      | JsonNumber n \<Rightarrow> n \<noteq> 0
      | JsonString t \<Rightarrow> t \<noteq> []
      | JsonArray xs \<Rightarrow> True
      | JsonObject kvs \<Rightarrow> True)"

record User =
  id' :: string
  username :: string
  email :: "string option"
  webAllowed :: "bool option"
  isAdmin :: "bool option"

text \<open>
  The data fields of \<open>AuthState\<close> (its other members are the actions below), with the
  values they can hold when the program runs: \<open>user\<close> is declared \<open>User | null\<close> but
  \<open>loadUserProfile\<close> can store \<open>undefined\<close>; \<open>error\<close> is declared \<open>string | null\<close>
  (\<open>None\<close> is \<open>null\<close>) but \<open>login\<close> can store any truthy value the server sent.
\<close>

record AuthState =
  user :: "User nullable"
  isAuthenticated :: bool
  isLoading :: bool
  error :: "json option"

text \<open>The part of \<open>oidc-client-ts\<close>'s \<open>User\<close> that the store reads or builds.\<close>

record OidcUser =
  id_token :: "string option"
  access_token :: string
  token_type :: string
  scope :: "string option"
  profile :: "(string \<times> string) list"
  expires_at :: "nat option"
  userState :: "string option"

datatype http_method = GET | POST

text \<open>
  An axios request configuration. \<open>retry\<close> is the \<open>_retry\<close> property that the response
  interceptor puts on a configuration; a configuration made by \<open>api.get\<close>, \<open>api.post\<close>
  or \<open>axios.post\<close> does not have it.
\<close>

record AxiosRequestConfig =
  baseURL :: string
  url :: string
  httpMethod :: http_method
  payload :: "(string \<times> string) list"
  withCredentials :: bool
  retry :: bool

text \<open>
  What \<open>response.data\<close> can be, as far as the store looks into it: nothing at all
  (reading a property of it throws), \<open>{data: user}\<close> with a user or \<open>null\<close>,
  \<open>{access_token, refresh_token}\<close>, \<open>{message}\<close> with any JSON value, or an object with none
  of these properties.
\<close>

datatype body =
    NoBody
  | UserBody "User option"
  | TokenBody string string
  | MessageBody json
  | EmptyObject

record AxiosResponse =
  status :: nat
  rdata :: body

record AxiosError =
  config :: "AxiosRequestConfig option"
  response :: "AxiosResponse option"

text \<open>Values that are thrown: an axios rejection, \<open>new Error(message)\<close>, a \<open>TypeError\<close>.\<close>

datatype exn = Axios AxiosError | Error string | TypeError

text \<open>
  One reply of the network to one HTTP call: the promise is fulfilled with a response,
  rejected with an error that carries the request's configuration and perhaps a response,
  or rejected with an error that has no \<open>config\<close>.
\<close>

datatype reply =
    Fulfilled AxiosResponse
  | Rejected "AxiosResponse option"
  | RejectedNoConfig

datatype call = Http AxiosRequestConfig | SigninRedirectCallback

datatype jsvalue = JUndefined | JNull | JBool bool | JUser User

text \<open>A stored item: the persist middleware's \<open>{state, version}\<close>, or any other text.\<close>

datatype item = PersistedState "(string \<times> jsvalue) list" nat | Text string

record world =
  store :: AuthState
  isProcessingCallback :: bool
  script :: "reply list"
  idpScript :: "(string + OidcUser) list"
  calls :: "call list"
  pendingLogouts :: nat
  localStorage :: "string \<rightharpoonup> item"
  sessionStorage :: "string \<rightharpoonup> item"

text \<open>
  The execution context of one call: whether \<open>window\<close> is defined,
  \<open>appConfig.oidcAuth.enabled\<close>, \<open>API_URL\<close>, whether \<open>localStorage\<close> passes the test
  write, and the query parameters of \<open>window.location.search\<close>.
\<close>

record env =
  hasWindow :: bool
  oidcAuthEnabled :: bool
  API_URL :: string
  localStorageWorks :: bool
  search :: "(string \<times> string) list"

definition AUTH_ERRORS_UNAUTHORIZED :: json where
  "AUTH_ERRORS_UNAUTHORIZED = JsonString ''Unauthorized''"

definition AUTH_ERRORS_LOGIN_FAILED :: json where
  "AUTH_ERRORS_LOGIN_FAILED = JsonString ''LoginFailed''"

subsection \<open>The network\<close>

text \<open>
  The transport below the interceptors: the call is logged and answered by the next reply
  of the script; when the script is used up the request fails without a response
  (a network error).
\<close>

definition adapter :: "AxiosRequestConfig \<Rightarrow> world \<Rightarrow> (AxiosError + AxiosResponse) \<times> world" where
  "adapter cfg w =
     (let w1 = w\<lparr>calls := calls w @ [Http cfg]\<rparr> in
      case script w of
        [] \<Rightarrow> (Inl \<lparr>config = Some cfg, response = None\<rparr>, w1)
      | r # rs \<Rightarrow>
          (case r of
             Fulfilled resp \<Rightarrow> (Inr resp, w1\<lparr>script := rs\<rparr>)
           | Rejected ro \<Rightarrow> (Inl \<lparr>config = Some cfg, response = ro\<rparr>, w1\<lparr>script := rs\<rparr>)
           | RejectedNoConfig \<Rightarrow> (Inl \<lparr>config = None, response = None\<rparr>, w1\<lparr>script := rs\<rparr>)))"

text \<open>\<open>axios.post(`${API_URL}/auth/refresh`, {}, {withCredentials: true})\<close>, on the global
  axios, which has no interceptor.\<close>

definition refreshRequest :: "env \<Rightarrow> AxiosRequestConfig" where
  "refreshRequest e =
     \<lparr>baseURL = [], url = API_URL e @ ''/auth/refresh'', httpMethod = POST, payload = [],
      withCredentials = True, retry = False\<rparr>"

text \<open>\<open>error.response?.status === 401\<close>\<close>

definition status401 :: "AxiosError \<Rightarrow> bool" where
  "status401 err = (case response err of None \<Rightarrow> False | Some r \<Rightarrow> status r = 401)"

subsection \<open>createApiClient: the client and its response interceptor\<close>

text \<open>
  \<open>client\<close> is the axios instance called on a configuration; \<open>onRejected\<close> is the second
  argument of \<open>client.interceptors.response.use\<close>. The interceptor calls the client again
  on the original request, whose \<open>_retry\<close> it has set, so the two are mutually recursive.
  The \<open>try\<close> of the interceptor covers the awaited refresh only: the promise of the
  replay is returned, not awaited, so its rejection is not caught there.
\<close>

function client :: "env \<Rightarrow> (world \<Rightarrow> world) \<Rightarrow> AxiosRequestConfig \<Rightarrow> world
                      \<Rightarrow> (AxiosError + AxiosResponse) \<times> world"
  and onRejected :: "env \<Rightarrow> (world \<Rightarrow> world) \<Rightarrow> AxiosError \<Rightarrow> world
                      \<Rightarrow> (AxiosError + AxiosResponse) \<times> world"
where
  "client e onAuthFailed cfg w =
     (case adapter cfg w of
        (Inr resp, w1) \<Rightarrow> (Inr resp, w1)
      | (Inl err, w1) \<Rightarrow> onRejected e onAuthFailed err w1)"
| "onRejected e onAuthFailed err w =
     (case config err of
        None \<Rightarrow> (Inl err, w)
      | Some originalRequest \<Rightarrow>
          if status401 err \<and> \<not> retry originalRequest then
            (case adapter (refreshRequest e) w of
               (Inr _, w1) \<Rightarrow> client e onAuthFailed (originalRequest\<lparr>retry := True\<rparr>) w1
             | (Inl refreshError, w1) \<Rightarrow> (Inl refreshError, onAuthFailed w1))
          else (Inl err, w))"
  by pat_completeness auto

termination
proof (relation "measure (\<lambda>x. case x of
          Inl (e, f, cfg, w) \<Rightarrow> (if retry cfg then 1 else 3)
        | Inr (e, f, err, w) \<Rightarrow>
            (case config err of None \<Rightarrow> 0 | Some c \<Rightarrow> if retry c then 0 else 2))")
  show "wf (measure (\<lambda>x. case x of
          Inl (e, f, cfg, w) \<Rightarrow> (if retry cfg then 1 else 3)
        | Inr (e, f, err, w) \<Rightarrow>
            (case config err of None \<Rightarrow> 0 | Some c \<Rightarrow> if retry c then 0 else (2::nat))))"
    by simp
next
  fix e :: env and onAuthFailed :: "world \<Rightarrow> world" and cfg w x1 w1 err
  assume "(x1, w1) = adapter cfg w" and "x1 = Inl err"
  then have "config err = None \<or> config err = Some cfg"
    by (auto simp: adapter_def Let_def split: list.splits reply.splits)
  then show "(Inr (e, onAuthFailed, err, w1), Inl (e, onAuthFailed, cfg, w))
      \<in> measure (\<lambda>x. case x of
          Inl (e, f, cfg, w) \<Rightarrow> (if retry cfg then 1 else 3)
        | Inr (e, f, err, w) \<Rightarrow>
            (case config err of None \<Rightarrow> 0 | Some c \<Rightarrow> if retry c then 0 else (2::nat)))"
    by auto
next
  fix e :: env and onAuthFailed :: "world \<Rightarrow> world" and err originalRequest
    and w :: world and w1 :: world
  assume "config err = Some originalRequest"
    and "status401 err \<and> \<not> retry originalRequest"
  then show "(Inl (e, onAuthFailed, originalRequest\<lparr>retry := True\<rparr>, w1),
              Inr (e, onAuthFailed, err, w))
      \<in> measure (\<lambda>x. case x of
          Inl (e, f, cfg, w) \<Rightarrow> (if retry cfg then 1 else 3)
        | Inr (e, f, err, w) \<Rightarrow>
            (case config err of None \<Rightarrow> 0 | Some c \<Rightarrow> if retry c then 0 else (2::nat)))"
    by simp
qed

declare client.simps [simp del] onRejected.simps [simp del]

subsection \<open>The persist middleware\<close>

datatype storageKind = NoopStorage | LocalStorage | SessionStorage

text \<open>The storage chosen by the function given to \<open>createJSONStorage\<close>.\<close>

definition storage :: "env \<Rightarrow> storageKind" where
  "storage e =
     (if \<not> hasWindow e then NoopStorage
      else if localStorageWorks e then LocalStorage
      else SessionStorage)"

definition partialize :: "AuthState \<Rightarrow> (string \<times> jsvalue) list" where
  "partialize s =
     [(''user'', case user s of Undefined \<Rightarrow> JUndefined | Null \<Rightarrow> JNull | Present u \<Rightarrow> JUser u),
      (''isAuthenticated'', JBool (isAuthenticated s))]"

text \<open>
  \<open>JSON.stringify\<close> on an object, as \<open>createJSONStorage\<close> applies it before the write:
  a property whose value is \<open>undefined\<close> is left out.
\<close>

definition JSON_stringify :: "(string \<times> jsvalue) list \<Rightarrow> (string \<times> jsvalue) list" where
  "JSON_stringify kvs = filter (\<lambda>kv. snd kv \<noteq> JUndefined) kvs"

text \<open>The middleware's write of the partialized state, under \<open>name\<close> and \<open>version\<close>.\<close>

definition setItem :: "env \<Rightarrow> world \<Rightarrow> world" where
  "setItem e w =
     (case storage e of
        NoopStorage \<Rightarrow> w
      | LocalStorage \<Rightarrow>
          w\<lparr>localStorage := (localStorage w)
             (''auth-storage'' \<mapsto> PersistedState (JSON_stringify (partialize (store w))) 1)\<rparr>
      | SessionStorage \<Rightarrow>
          w\<lparr>sessionStorage := (sessionStorage w)
             (''auth-storage'' \<mapsto> PersistedState (JSON_stringify (partialize (store w))) 1)\<rparr>)"

text \<open>\<open>set(partial)\<close>: the state is updated, then the middleware writes it.\<close>

definition setState :: "env \<Rightarrow> (AuthState \<Rightarrow> AuthState) \<Rightarrow> world \<Rightarrow> world" where
  "setState e f w = setItem e (w\<lparr>store := f (store w)\<rparr>)"

text \<open>What the chosen storage holds under the store's name.\<close>

definition persisted :: "env \<Rightarrow> world \<Rightarrow> item option" where
  "persisted e w =
     (case storage e of
        NoopStorage \<Rightarrow> None
      | LocalStorage \<Rightarrow> localStorage w ''auth-storage''
      | SessionStorage \<Rightarrow> sessionStorage w ''auth-storage'')"

subsection \<open>The store\<close>

definition initialState :: AuthState where
  "initialState = \<lparr>user = Null, isAuthenticated = False, isLoading = False, error = None\<rparr>"

definition initialWorld :: "reply list \<Rightarrow> (string + OidcUser) list \<Rightarrow> world" where
  "initialWorld sc idp =
     \<lparr>store = initialState, isProcessingCallback = False, script = sc, idpScript = idp,
      calls = [], pendingLogouts = 0, localStorage = Map.empty, sessionStorage = Map.empty\<rparr>"

text \<open>
  The callback given to \<open>createApiClient\<close>: \<open>get().logout().catch(console.error)\<close>. It
  starts a logout and does not wait for it; the started logout is counted in
  \<open>pendingLogouts\<close> and runs in \<open>runPendingLogout\<close>.
\<close>

definition logoutOnAuthFailed :: "world \<Rightarrow> world" where
  "logoutOnAuthFailed w = w\<lparr>pendingLogouts := Suc (pendingLogouts w)\<rparr>"

definition api_post :: "env \<Rightarrow> string \<Rightarrow> (string \<times> string) list \<Rightarrow> world
                          \<Rightarrow> (AxiosError + AxiosResponse) \<times> world" where
  "api_post e u d w =
     client e logoutOnAuthFailed
       \<lparr>baseURL = API_URL e, url = u, httpMethod = POST, payload = d,
        withCredentials = True, retry = False\<rparr> w"

definition api_get :: "env \<Rightarrow> string \<Rightarrow> world \<Rightarrow> (AxiosError + AxiosResponse) \<times> world" where
  "api_get e u w =
     client e logoutOnAuthFailed
       \<lparr>baseURL = API_URL e, url = u, httpMethod = GET, payload = [],
        withCredentials = True, retry = False\<rparr> w"

text \<open>
  \<open>response.data.data\<close>: reading it throws when there is no \<open>response.data\<close>; an object
  without the property \<open>data\<close> gives \<open>undefined\<close>.
\<close>

definition responseDataData :: "AxiosResponse \<Rightarrow> exn + User nullable" where
  "responseDataData r =
     (case rdata r of
        NoBody \<Rightarrow> Inl TypeError
      | UserBody None \<Rightarrow> Inr Null
      | UserBody (Some u) \<Rightarrow> Inr (Present u)
      | _ \<Rightarrow> Inr Undefined)"

definition loadUserProfile :: "env \<Rightarrow> world \<Rightarrow> User nullable \<times> world" where
  "loadUserProfile e w =
     (case api_get e ''/auth/me/info'' w of
        (Inl err, w1) \<Rightarrow> (Null, w1)
      | (Inr resp, w1) \<Rightarrow>
          (case responseDataData resp of
             Inl err \<Rightarrow> (Null, w1)
           | Inr u \<Rightarrow> (u, setState e (\<lambda>s. s\<lparr>user := u\<rparr>) w1)))"

text \<open>\<open>!user || user.webAllowed === false\<close>\<close>

definition noWebAccess :: "User nullable \<Rightarrow> bool" where
  "noWebAccess u = (case u of Present usr \<Rightarrow> webAllowed usr = Some False | _ \<Rightarrow> True)"

text \<open>The \<open>try\<close> block of \<open>login\<close>.\<close>

definition login_try :: "env \<Rightarrow> string \<Rightarrow> string \<Rightarrow> world \<Rightarrow> (exn + bool) \<times> world" where
  "login_try e uname password w =
     (case api_post e ''/auth/login'' [(''username'', uname), (''password'', password)] w of
        (Inl err, w1) \<Rightarrow> (Inl (Axios err), w1)
      | (Inr resp, w1) \<Rightarrow>
          (case loadUserProfile e w1 of
             (u, w2) \<Rightarrow>
               if noWebAccess u then
                 (Inr False,
                  setState e (\<lambda>s. s\<lparr>isAuthenticated := False, isLoading := False,
                                    error := Some AUTH_ERRORS_UNAUTHORIZED, user := Null\<rparr>) w2)
               else
                 (Inr True,
                  setState e (\<lambda>s. s\<lparr>isAuthenticated := True, isLoading := False,
                                    error := None\<rparr>) w2)))"

text \<open>
  \<open>error.response?.data?.message\<close>: \<open>None\<close> is \<open>undefined\<close>; a message can be any JSON
  value.
\<close>

definition responseMessage :: "exn \<Rightarrow> json option" where
  "responseMessage x =
     (case x of
        Axios err \<Rightarrow>
          (case response err of
             None \<Rightarrow> None
           | Some r \<Rightarrow> (case rdata r of MessageBody m \<Rightarrow> Some m | _ \<Rightarrow> None))
      | _ \<Rightarrow> None)"

text \<open>\<open>a || b\<close> on strings: \<open>undefined\<close> and the empty string are falsy.\<close>

definition orElse :: "string option \<Rightarrow> string \<Rightarrow> string" where
  "orElse a b = (case a of None \<Rightarrow> b | Some m \<Rightarrow> if m = [] then b else m)"

text \<open>\<open>a || b\<close> on values of any kind: \<open>a\<close> when it is truthy, whatever it is.\<close>

definition jsOr :: "json option \<Rightarrow> json \<Rightarrow> json" where
  "jsOr a b = (case a of None \<Rightarrow> b | Some v \<Rightarrow> if truthy v then v else b)"

definition login :: "env \<Rightarrow> string \<Rightarrow> string \<Rightarrow> world \<Rightarrow> bool \<times> world" where
  "login e uname password w =
     (case login_try e uname password (setState e (\<lambda>s. s\<lparr>isLoading := True, error := None\<rparr>) w) of
        (Inr b, w1) \<Rightarrow> (b, w1)
      | (Inl err, w1) \<Rightarrow>
          (False,
           setState e (\<lambda>s. s\<lparr>isLoading := False,
                             error := Some (jsOr (responseMessage err) AUTH_ERRORS_LOGIN_FAILED),
                             isAuthenticated := False\<rparr>) w1))"

definition getProfile :: "env \<Rightarrow> world \<Rightarrow> User nullable \<times> world" where
  "getProfile e w =
     (case api_get e ''/auth/me/info'' w of
        (Inl err, w1) \<Rightarrow>
          (Null, setState e (\<lambda>s. s\<lparr>isAuthenticated := False, user := Null\<rparr>) w1)
      | (Inr resp, w1) \<Rightarrow>
          (case responseDataData resp of
             Inl err \<Rightarrow>
               (Null, setState e (\<lambda>s. s\<lparr>isAuthenticated := False, user := Null\<rparr>) w1)
           | Inr (Present u) \<Rightarrow>
               (Present u,
                setState e (\<lambda>s. s\<lparr>isAuthenticated := True, user := Present u,
                                  error := None\<rparr>) w1)
           | Inr _ \<Rightarrow>
               (Null, setState e (\<lambda>s. s\<lparr>isAuthenticated := False, user := Null\<rparr>) w1)))"

definition logout :: "env \<Rightarrow> world \<Rightarrow> world" where
  "logout e w =
     (let w1 = (case api_post e ''/auth/logout'' [] w of
                  (Inl err, w') \<Rightarrow> w'
                | (Inr resp, w') \<Rightarrow> w');
          w2 = setState e (\<lambda>s. s\<lparr>user := Null, isAuthenticated := False, error := None\<rparr>) w1
      in if hasWindow e then
           w2\<lparr>sessionStorage :=
                (sessionStorage w2)(''router-last-location'' := None, ''auth-storage'' := None)\<rparr>
         else w2)"

definition clearError :: "env \<Rightarrow> world \<Rightarrow> world" where
  "clearError e w = setState e (\<lambda>s. s\<lparr>error := None\<rparr>) w"

definition setTokens :: "env \<Rightarrow> string \<Rightarrow> string \<Rightarrow> world \<Rightarrow> world" where
  "setTokens e accessToken refreshToken w = setState e (\<lambda>s. s\<lparr>isAuthenticated := True\<rparr>) w"

text \<open>One logout started by that callback runs to its end.\<close>

definition runPendingLogout :: "env \<Rightarrow> world \<Rightarrow> world" where
  "runPendingLogout e w =
     (if pendingLogouts w = 0 then w
      else logout e (w\<lparr>pendingLogouts := pendingLogouts w - 1\<rparr>))"

subsection \<open>The federated login callback\<close>

text \<open>
  \<open>getUserManager() !== null\<close>. The manager itself, created once and kept with its
  cached metadata, is the identity provider's side and is not looked into.
\<close>

definition getUserManager :: "env \<Rightarrow> bool" where
  "getUserManager e = (hasWindow e \<and> oidcAuthEnabled e)"

definition isOidcEnabled :: "env \<Rightarrow> bool" where
  "isOidcEnabled e = (oidcAuthEnabled e \<and> hasWindow e)"

text \<open>\<open>!v\<close> for a value that is a string, \<open>null\<close> or \<open>undefined\<close>.\<close>

definition falsy :: "string option \<Rightarrow> bool" where
  "falsy v = (case v of None \<Rightarrow> True | Some t \<Rightarrow> t = [])"

text \<open>\<open>new URLSearchParams(window.location.search).get(name)\<close>: the first value or \<open>null\<close>.\<close>

definition urlParams_get :: "env \<Rightarrow> string \<Rightarrow> string option" where
  "urlParams_get e name = map_of (search e) name"

text \<open>
  \<open>manager.signinRedirectCallback()\<close>: the exchange with the identity provider. It is
  logged and answered by the next entry of \<open>idpScript\<close>: the provider's user, or the
  message of the error thrown; with nothing left in the script it fails as the network does.
\<close>

definition signinRedirectCallback :: "world \<Rightarrow> (exn + OidcUser) \<times> world" where
  "signinRedirectCallback w =
     (let w1 = w\<lparr>calls := calls w @ [SigninRedirectCallback]\<rparr> in
      case idpScript w of
        [] \<Rightarrow> (Inl (Error ''Network Error''), w1)
      | r # rs \<Rightarrow>
          (case r of
             Inl m \<Rightarrow> (Inl (Error m), w1\<lparr>idpScript := rs\<rparr>)
           | Inr u \<Rightarrow> (Inr u, w1\<lparr>idpScript := rs\<rparr>)))"

text \<open>\<open>tokenError.message && tokenError.message.includes('Invalid token')\<close>\<close>

definition invalidToken :: "exn \<Rightarrow> bool" where
  "invalidToken x = (case x of Error m \<Rightarrow> m \<noteq> [] \<and> sublist ''Invalid token'' m | _ \<Rightarrow> False)"

text \<open>The minimal user object built from the authorization code.\<close>

definition fallbackUser :: "string \<Rightarrow> string \<Rightarrow> OidcUser" where
  "fallbackUser code st =
     \<lparr>id_token = Some [], access_token = code, token_type = ''Bearer'',
      scope = Some ''openid profile email'', profile = [], expires_at = Some 0,
      userState = Some st\<rparr>"

record OidcCallbackResult =
  oidcUser :: OidcUser
  res_access_token :: "string option"
  res_refresh_token :: "string option"

definition requestParams :: "OidcUser \<Rightarrow> string \<Rightarrow> string \<Rightarrow> (string \<times> string) list" where
  "requestParams usr code st =
     [(''access_token'', access_token usr)]
     @ (case id_token usr of
          None \<Rightarrow> []
        | Some t \<Rightarrow> if t = [] then [] else [(''id_token'', t)])
     @ (if falsy (id_token usr) \<and> code \<noteq> [] then
          [(''code'', code), (''state'', orElse (Some st) [])]
        else [])"

text \<open>The \<open>try\<close> block that obtains the provider's user, with its \<open>catch\<close>.\<close>

definition obtainUser :: "string \<Rightarrow> string \<Rightarrow> world \<Rightarrow> (exn + OidcUser) \<times> world" where
  "obtainUser code st w =
     (case signinRedirectCallback w of
        (Inr u, w1) \<Rightarrow> (Inr u, w1)
      | (Inl tokenError, w1) \<Rightarrow>
          if invalidToken tokenError then (Inr (fallbackUser code st), w1)
          else (Inl tokenError, w1))"

text \<open>
  The last step: the request parameters are built and the provider's credential is traded
  at the backend for the application's tokens (\<open>const { data } = await api.post(...)\<close>).
\<close>

definition verifyToken :: "env \<Rightarrow> OidcUser \<Rightarrow> string \<Rightarrow> string \<Rightarrow> world
                             \<Rightarrow> (exn + OidcCallbackResult) \<times> world" where
  "verifyToken e usr code st w =
     (case api_post e ''/auth/openid/verify-token'' (requestParams usr code st) w of
        (Inl err, w1) \<Rightarrow> (Inl (Axios err), w1)
      | (Inr resp, w1) \<Rightarrow>
          (case rdata resp of
             NoBody \<Rightarrow> (Inl TypeError, w1)
           | TokenBody a r \<Rightarrow>
               (Inr \<lparr>oidcUser = usr, res_access_token = Some a, res_refresh_token = Some r\<rparr>, w1)
           | _ \<Rightarrow>
               (Inr \<lparr>oidcUser = usr, res_access_token = None, res_refresh_token = None\<rparr>, w1)))"

text \<open>
  \<open>handleOidcCallback\<close> is written in two parts, cut at its first \<open>await\<close>, so that the
  state in which a call is suspended can be spoken of. An \<open>async\<close> function runs without
  interruption up to its first \<open>await\<close>: \<open>handleOidcCallback_start\<close> is that part, the two
  guards, the assignment to the flag and the check of the parameters (a \<open>throw\<close> inside
  the \<open>try\<close> is thrown again by \<open>catch\<close> and runs \<open>finally\<close> at once). It ends either with
  the call finished or with the call waiting for \<open>manager.signinRedirectCallback()\<close>.
\<close>

datatype started = Finished "exn + OidcCallbackResult" | Awaiting string string

definition handleOidcCallback_start :: "env \<Rightarrow> world \<Rightarrow> started \<times> world" where
  "handleOidcCallback_start e w =
     (if \<not> getUserManager e then
        (Finished (Inl (Error ''OIDC authentication is not enabled'')), w)
      else if isProcessingCallback w then
        (Finished (Inl (Error ''OIDC callback is already being processed'')), w)
      else
        (let w1 = w\<lparr>isProcessingCallback := True\<rparr> in
         case (urlParams_get e ''code'', urlParams_get e ''state'') of
           (Some code, Some st) \<Rightarrow>
             if code = [] \<or> st = [] then
               (Finished (Inl (Error
                  ''Invalid authorization response. Missing code or state parameter.'')),
                w1\<lparr>isProcessingCallback := False\<rparr>)
             else (Awaiting code st, w1)
         | _ \<Rightarrow>
             (Finished (Inl (Error
                ''Invalid authorization response. Missing code or state parameter.'')),
              w1\<lparr>isProcessingCallback := False\<rparr>)))"

text \<open>
  The rest of the outer \<open>try\<close> block, from the exchange with the identity provider on; its
  \<open>catch\<close> throws the error again, and \<open>finally\<close> resets the flag.
\<close>

definition handleOidcCallback_resume :: "env \<Rightarrow> string \<Rightarrow> string \<Rightarrow> world
                                           \<Rightarrow> (exn + OidcCallbackResult) \<times> world" where
  "handleOidcCallback_resume e code st w =
     (case (case obtainUser code st w of
              (Inl err, w1) \<Rightarrow> (Inl err, w1)
            | (Inr usr, w1) \<Rightarrow> verifyToken e usr code st w1) of
        (r, w2) \<Rightarrow> (r, w2\<lparr>isProcessingCallback := False\<rparr>))"

text \<open>The whole call, when nothing else runs while it waits.\<close>

definition handleOidcCallback :: "env \<Rightarrow> world \<Rightarrow> (exn + OidcCallbackResult) \<times> world" where
  "handleOidcCallback e w =
     (case handleOidcCallback_start e w of
        (Finished r, w1) \<Rightarrow> (r, w1)
      | (Awaiting code st, w1) \<Rightarrow> handleOidcCallback_resume e code st w1)"

subsection \<open>Notions used in the statements\<close>

text \<open>The invariant of the session as the specification words it.\<close>

definition sessionInvariant :: "AuthState \<Rightarrow> bool" where
  "sessionInvariant s =
     (isAuthenticated s \<longrightarrow>
        (case user s of Present u \<Rightarrow> webAllowed u \<noteq> Some False | _ \<Rightarrow> False))"

text \<open>The world after the first \<open>set\<close> of \<open>login\<close>, and the login request made in it.\<close>

definition loginStart :: "env \<Rightarrow> world \<Rightarrow> world" where
  "loginStart e w = setState e (\<lambda>s. s\<lparr>isLoading := True, error := None\<rparr>) w"

definition loginRequest :: "env \<Rightarrow> string \<Rightarrow> string \<Rightarrow> world
                              \<Rightarrow> (AxiosError + AxiosResponse) \<times> world" where
  "loginRequest e uname password w =
     api_post e ''/auth/login'' [(''username'', uname), (''password'', password)] (loginStart e w)"

text \<open>Two worlds that differ at most in the network's script, its log and the logouts started.\<close>

definition sameSession :: "world \<Rightarrow> world \<Rightarrow> bool" where
  "sameSession w w' =
     (store w' = store w \<and> isProcessingCallback w' = isProcessingCallback w
      \<and> localStorage w' = localStorage w \<and> sessionStorage w' = sessionStorage w
      \<and> idpScript w' = idpScript w)"

text \<open>
  The network is about to answer the next request with status 401 and to reject the
  refresh call that follows it (a rejection of the script, or no reply left).
\<close>

definition sessionLost :: "world \<Rightarrow> bool" where
  "sessionLost w =
     (case script w of
        Rejected (Some r) # rest \<Rightarrow>
          status r = 401 \<and> (case rest of Fulfilled resp # rest' \<Rightarrow> False | _ \<Rightarrow> True)
      | _ \<Rightarrow> False)"

text \<open>The stored form of the logged-out session.\<close>

definition loggedOutItem :: item where
  "loggedOutItem = PersistedState [(''user'', JNull), (''isAuthenticated'', JBool False)] 1"

text \<open>The request that \<open>handleOidcCallback\<close> sends to the backend.\<close>

definition verifyRequest :: "env \<Rightarrow> (string \<times> string) list \<Rightarrow> AxiosRequestConfig" where
  "verifyRequest e d =
     \<lparr>baseURL = API_URL e, url = ''/auth/openid/verify-token'', httpMethod = POST, payload = d,
      withCredentials = True, retry = False\<rparr>"

subsection \<open>Example inputs\<close>

definition browser :: env where
  "browser = \<lparr>hasWindow = True, oidcAuthEnabled = True, API_URL = ''/api'',
              localStorageWorks = True, search = []\<rparr>"

definition callbackPage :: env where
  "callbackPage = browser\<lparr>search := [(''code'', ''abc''), (''state'', ''xyz'')]\<rparr>"

definition webUser :: User where
  "webUser = \<lparr>id' = ''1'', username = ''u0'', email = None, webAllowed = Some True,
               isAdmin = None\<rparr>"

definition appOnlyUser :: User where
  "appOnlyUser = \<lparr>id' = ''2'', username = ''u1'', email = None, webAllowed = Some False,
                   isAdmin = None\<rparr>"

definition ok :: "body \<Rightarrow> reply" where
  "ok b = Fulfilled \<lparr>status = 200, rdata = b\<rparr>"

definition failed :: "nat \<Rightarrow> body \<Rightarrow> reply" where
  "failed st b = Rejected (Some \<lparr>status = st, rdata = b\<rparr>)"

definition profileRequest :: AxiosRequestConfig where
  "profileRequest =
     \<lparr>baseURL = ''/api'', url = ''/auth/me/info'', httpMethod = GET, payload = [],
      withCredentials = True, retry = False\<rparr>"

definition unauthenticated :: AxiosError where
  "unauthenticated =
     \<lparr>config = Some profileRequest, response = Some \<lparr>status = 401, rdata = EmptyObject\<rparr>\<rparr>"

text \<open>A session in which \<open>webUser\<close> is signed in, as a successful \<open>login\<close> leaves it.\<close>

definition signedIn :: "reply list \<Rightarrow> world" where
  "signedIn sc =
     (initialWorld sc [])\<lparr>store := \<lparr>user = Present webUser, isAuthenticated = True,
                                     isLoading = False, error = None\<rparr>\<rparr>"

subsection \<open>Facts about the network and the client\<close>

lemma adapter_config:
  "adapter cfg w = (Inl err, w1) \<Longrightarrow> config err = None \<or> config err = Some cfg"
  by (auto simp: adapter_def Let_def split: list.splits reply.splits)

lemma adapter_calls: "calls (snd (adapter cfg w)) = calls w @ [Http cfg]"
  by (simp add: adapter_def Let_def split: list.splits reply.splits)

lemma adapter_frame [simp]:
  "store (snd (adapter cfg w)) = store w"
  "isProcessingCallback (snd (adapter cfg w)) = isProcessingCallback w"
  "localStorage (snd (adapter cfg w)) = localStorage w"
  "sessionStorage (snd (adapter cfg w)) = sessionStorage w"
  "pendingLogouts (snd (adapter cfg w)) = pendingLogouts w"
  "idpScript (snd (adapter cfg w)) = idpScript w"
  by (simp_all add: adapter_def Let_def split: list.splits reply.splits)

lemma adapter_retry_config:
  "adapter cfg w = (Inl err, w1) \<Longrightarrow> retry cfg \<Longrightarrow> onRejected e f err w1 = (Inl err, w1)"
  using adapter_config [of cfg w err w1]
  by (auto simp: onRejected.simps)

lemma client_retry: "retry cfg \<Longrightarrow> client e f cfg w = adapter cfg w"
  by (cases "adapter cfg w" rule: prod.exhaust; cases "fst (adapter cfg w)")
     (auto simp: client.simps adapter_retry_config)

lemma onRejected_passthrough:
  "config err = None \<or> \<not> status401 err \<or> (\<exists>req. config err = Some req \<and> retry req)
   \<Longrightarrow> onRejected e f err w = (Inl err, w)"
  by (auto simp: onRejected.simps split: option.splits)

lemma onRejected_refresh:
  assumes "config err = Some req" "status401 err" "\<not> retry req"
  shows "onRejected e f err w =
     (case adapter (refreshRequest e) w of
        (Inl refreshError, w1) \<Rightarrow> (Inl refreshError, f w1)
      | (Inr r, w1) \<Rightarrow> adapter (req\<lparr>retry := True\<rparr>) w1)"
  using assms by (simp add: onRejected.simps client_retry split: prod.splits sum.splits)

lemma sameSession_refl [simp]: "sameSession w w"
  by (simp add: sameSession_def)

lemma sameSession_trans: "sameSession w w1 \<Longrightarrow> sameSession w1 w2 \<Longrightarrow> sameSession w w2"
  by (simp add: sameSession_def)

lemma sameSession_adapter [simp]: "sameSession w (snd (adapter cfg w))"
  by (simp add: sameSession_def)

lemma sameSession_adapter': "adapter cfg w = (r, w1) \<Longrightarrow> sameSession w w1"
  using sameSession_adapter [of w cfg] by simp

lemma sameSession_logoutOnAuthFailed [simp]: "sameSession w (logoutOnAuthFailed w)"
  by (simp add: sameSession_def logoutOnAuthFailed_def)

lemma sameSession_onRejected: "sameSession w (snd (onRejected e logoutOnAuthFailed err w))"
proof (cases "\<exists>req. config err = Some req \<and> status401 err \<and> \<not> retry req")
  case True
  then obtain req where r: "config err = Some req" "status401 err" "\<not> retry req" by blast
  show ?thesis
    unfolding onRejected_refresh [OF r]
    by (auto split: prod.splits sum.splits
             dest!: sameSession_adapter' simp: sameSession_def logoutOnAuthFailed_def)
next
  case False
  then have "onRejected e logoutOnAuthFailed err w = (Inl err, w)"
    by (intro onRejected_passthrough) (cases "config err"; auto)
  then show ?thesis by simp
qed

lemma sameSession_client: "sameSession w (snd (client e logoutOnAuthFailed cfg w))"
proof (cases "adapter cfg w")
  case (Pair r w1)
  then have s: "sameSession w w1" by (rule sameSession_adapter')
  show ?thesis
  proof (cases r)
    case (Inl err)
    with Pair have "client e logoutOnAuthFailed cfg w = onRejected e logoutOnAuthFailed err w1"
      by (simp add: client.simps)
    then show ?thesis
      using sameSession_trans [OF s sameSession_onRejected [of w1 e err]] by simp
  next
    case (Inr resp)
    with Pair s show ?thesis by (simp add: client.simps)
  qed
qed

lemma sameSession_api_get: "sameSession w (snd (api_get e u w))"
  by (simp add: api_get_def sameSession_client)

lemma sameSession_api_post: "sameSession w (snd (api_post e u d w))"
  by (simp add: api_post_def sameSession_client)

lemma api_get_store: "api_get e u w = (r, w1) \<Longrightarrow> store w1 = store w"
  using sameSession_api_get [of w e u] by (simp add: sameSession_def)

lemma api_post_store: "api_post e u d w = (r, w1) \<Longrightarrow> store w1 = store w"
  using sameSession_api_post [of w e u d] by (simp add: sameSession_def)

lemma onRejected_calls:
  "\<exists>cs. calls (snd (onRejected e logoutOnAuthFailed err w)) = calls w @ cs"
proof (cases "\<exists>req. config err = Some req \<and> status401 err \<and> \<not> retry req")
  case True
  then obtain req where r: "config err = Some req" "status401 err" "\<not> retry req" by blast
  obtain x w1 where a: "adapter (refreshRequest e) w = (x, w1)"
    by (cases "adapter (refreshRequest e) w")
  then have c: "calls w1 = calls w @ [Http (refreshRequest e)]"
    using adapter_calls [of "refreshRequest e" w] by simp
  show ?thesis
    unfolding onRejected_refresh [OF r] using a c
    by (cases x) (simp_all add: adapter_calls logoutOnAuthFailed_def)
next
  case False
  then have "onRejected e logoutOnAuthFailed err w = (Inl err, w)"
    by (intro onRejected_passthrough) (cases "config err"; auto)
  then show ?thesis by simp
qed

lemma client_calls:
  "\<exists>cs. calls (snd (client e logoutOnAuthFailed cfg w)) = calls w @ Http cfg # cs"
proof -
  obtain x w1 where a: "adapter cfg w = (x, w1)" by (cases "adapter cfg w")
  then have c: "calls w1 = calls w @ [Http cfg]" using adapter_calls [of cfg w] by simp
  show ?thesis
  proof (cases x)
    case (Inl err)
    with a have "client e logoutOnAuthFailed cfg w = onRejected e logoutOnAuthFailed err w1"
      by (simp add: client.simps)
    with c onRejected_calls [of e err w1] show ?thesis by auto
  next
    case (Inr resp)
    with a c show ?thesis by (simp add: client.simps)
  qed
qed

subsection \<open>Facts about the store\<close>

lemma setState_simps [simp]:
  "store (setState e f w) = f (store w)"
  "isProcessingCallback (setState e f w) = isProcessingCallback w"
  "calls (setState e f w) = calls w"
  "script (setState e f w) = script w"
  "idpScript (setState e f w) = idpScript w"
  "pendingLogouts (setState e f w) = pendingLogouts w"
  by (simp_all add: setState_def setItem_def split: storageKind.splits)

lemma persisted_setState:
  "persisted e (setState e f w) =
     (if storage e = NoopStorage then None
      else Some (PersistedState (JSON_stringify (partialize (f (store w)))) 1))"
  by (simp add: persisted_def setState_def setItem_def split: storageKind.splits)

lemma loadUserProfile_rejected:
  assumes "fst (api_get e ''/auth/me/info'' w) = Inl err"
  shows "fst (loadUserProfile e w) = Null"
    and "sameSession w (snd (loadUserProfile e w))"
    and "snd (loadUserProfile e w) = snd (api_get e ''/auth/me/info'' w)"
  using assms sameSession_api_get [of w e "''/auth/me/info''"]
  by (auto simp: loadUserProfile_def split: prod.splits sum.splits)

lemma loadUserProfile_others:
  "isAuthenticated (store (snd (loadUserProfile e w))) = isAuthenticated (store w)"
  "isLoading (store (snd (loadUserProfile e w))) = isLoading (store w)"
  "error (store (snd (loadUserProfile e w))) = error (store w)"
  by (auto simp: loadUserProfile_def split: prod.splits sum.splits dest: api_get_store)

lemma loadUserProfile_Present:
  "fst (loadUserProfile e w) = Present u \<Longrightarrow>
     user (store (snd (loadUserProfile e w))) = Present u"
  by (auto simp: loadUserProfile_def split: prod.splits sum.splits dest: api_get_store)

lemma login_rejected:
  assumes "fst (loginRequest e uname password w) = Inl err"
  shows "fst (login e uname password w) = False"
    and "store (snd (login e uname password w)) =
           (store w)\<lparr>isLoading := False,
                     error := Some (jsOr (responseMessage (Axios err)) AUTH_ERRORS_LOGIN_FAILED),
                     isAuthenticated := False\<rparr>"
proof -
  obtain w1 where r: "loginRequest e uname password w = (Inl err, w1)"
    using assms by (cases "loginRequest e uname password w") simp
  then have s: "store w1 = store (loginStart e w)"
    unfolding loginRequest_def by (rule api_post_store)
  from r have t: "login_try e uname password (loginStart e w) = (Inl (Axios err), w1)"
    by (simp add: login_try_def loginRequest_def)
  show "fst (login e uname password w) = False"
    using t by (simp add: login_def loginStart_def)
  show "store (snd (login e uname password w)) =
           (store w)\<lparr>isLoading := False,
                     error := Some (jsOr (responseMessage (Axios err)) AUTH_ERRORS_LOGIN_FAILED),
                     isAuthenticated := False\<rparr>"
    using t s by (simp add: login_def loginStart_def)
qed

lemma login_resolved:
  assumes "loginRequest e uname password w = (Inr resp, w1)"
  shows "login e uname password w =
     (case loadUserProfile e w1 of
        (u, w2) \<Rightarrow>
          if noWebAccess u then
            (False, setState e (\<lambda>s. s\<lparr>isAuthenticated := False, isLoading := False,
                                      error := Some AUTH_ERRORS_UNAUTHORIZED, user := Null\<rparr>) w2)
          else
            (True, setState e (\<lambda>s. s\<lparr>isAuthenticated := True, isLoading := False,
                                     error := None\<rparr>) w2))"
  using assms
  by (auto simp: login_def login_try_def loginRequest_def loginStart_def split: prod.splits)

lemma login_isLoading: "isLoading (store (snd (login e uname password w))) = False"
proof (cases "loginRequest e uname password w")
  case (Pair r w1)
  show ?thesis
  proof (cases r)
    case (Inl err)
    with Pair show ?thesis using login_rejected(2) [of e uname password w err] by simp
  next
    case (Inr resp)
    with Pair show ?thesis
      unfolding login_resolved [OF Pair [unfolded Inr]]
      by (cases "loadUserProfile e w1") simp
  qed
qed

lemma login_fulfilled:
  assumes "fst (loginRequest e uname password w) = Inr resp"
  shows "fst (login e uname password w)
           = (\<not> noWebAccess (fst (loadUserProfile e (snd (loginRequest e uname password w)))))"
    and "error (store (snd (login e uname password w)))
           = (if noWebAccess (fst (loadUserProfile e (snd (loginRequest e uname password w))))
              then Some AUTH_ERRORS_UNAUTHORIZED else None)"
proof -
  obtain w1 where r: "loginRequest e uname password w = (Inr resp, w1)"
    using assms by (cases "loginRequest e uname password w") simp
  show "fst (login e uname password w)
           = (\<not> noWebAccess (fst (loadUserProfile e (snd (loginRequest e uname password w)))))"
    unfolding login_resolved [OF r] using r by (cases "loadUserProfile e w1") simp
  show "error (store (snd (login e uname password w)))
           = (if noWebAccess (fst (loadUserProfile e (snd (loginRequest e uname password w))))
              then Some AUTH_ERRORS_UNAUTHORIZED else None)"
    unfolding login_resolved [OF r] using r by (cases "loadUserProfile e w1") simp
qed

lemma login_invariant: "sessionInvariant (store (snd (login e uname password w)))"
proof (cases "loginRequest e uname password w")
  case (Pair r w1)
  show ?thesis
  proof (cases r)
    case (Inl err)
    with Pair show ?thesis
      using login_rejected(2) [of e uname password w err] by (simp add: sessionInvariant_def)
  next
    case (Inr resp)
    show ?thesis
    proof (cases "loadUserProfile e w1")
      case lp: (Pair u w2)
      then have "\<And>v. u = Present v \<Longrightarrow> user (store w2) = Present v"
        using loadUserProfile_Present [of e w1] by simp
      with lp show ?thesis
        unfolding login_resolved [OF Pair [unfolded Inr]]
        by (auto simp: sessionInvariant_def noWebAccess_def split: nullable.splits)
    qed
  qed
qed

lemma login_ends_with_set: "\<exists>f w'. snd (login e uname password w) = setState e f w'"
proof (cases "loginRequest e uname password w")
  case (Pair r w1)
  show ?thesis
  proof (cases r)
    case (Inl err)
    with Pair have "login_try e uname password (loginStart e w) = (Inl (Axios err), w1)"
      by (simp add: login_try_def loginRequest_def)
    then show ?thesis
      by (simp add: login_def loginStart_def) blast
  next
    case (Inr resp)
    show ?thesis
      unfolding login_resolved [OF Pair [unfolded Inr]]
      by (cases "loadUserProfile e w1") auto
  qed
qed

lemma logout_store:
  "store (logout e w) = (store w)\<lparr>user := Null, isAuthenticated := False, error := None\<rparr>"
proof (cases "api_post e ''/auth/logout'' [] w")
  case (Pair r w1)
  then have "store w1 = store w" by (rule api_post_store)
  with Pair show ?thesis
    by (cases r) (simp_all add: logout_def Let_def)
qed

lemma logout_localStorage:
  "localStorage (logout e w) =
     (if storage e = LocalStorage then (localStorage w)(''auth-storage'' \<mapsto> loggedOutItem)
      else localStorage w)"
proof (cases "api_post e ''/auth/logout'' [] w")
  case (Pair r w1)
  then have "sameSession w w1" using sameSession_api_post [of w e "''/auth/logout''" "[]"] by simp
  then have "store w1 = store w" "localStorage w1 = localStorage w"
    by (simp_all add: sameSession_def)
  with Pair show ?thesis
    by (cases r)
       (simp_all add: logout_def Let_def setState_def setItem_def partialize_def loggedOutItem_def
          JSON_stringify_def split: storageKind.splits)
qed

lemma logout_sessionStorage:
  "sessionStorage (logout e w) =
     (if hasWindow e then
        (sessionStorage w)(''router-last-location'' := None, ''auth-storage'' := None)
      else sessionStorage w)"
proof (cases "api_post e ''/auth/logout'' [] w")
  case (Pair r w1)
  then have "sameSession w w1" using sameSession_api_post [of w e "''/auth/logout''" "[]"] by simp
  then have "sessionStorage w1 = sessionStorage w"
    by (simp_all add: sameSession_def)
  with Pair show ?thesis
    by (cases r)
       (auto simp: logout_def Let_def setState_def setItem_def storage_def
          split: storageKind.splits)
qed

lemma logout_persisted:
  "persisted e (logout e w) = (if storage e = LocalStorage then Some loggedOutItem else None)"
  by (auto simp: persisted_def logout_localStorage logout_sessionStorage storage_def
      split: storageKind.splits if_splits)

lemma getProfile_user:
  "isAuthenticated (store (snd (getProfile e w))) \<Longrightarrow>
     \<exists>u. user (store (snd (getProfile e w))) = Present u"
  by (auto simp: getProfile_def split: prod.splits sum.splits nullable.splits)

lemma onRejected_pending:
  assumes "config err = Some req"
  shows "pendingLogouts (snd (onRejected e logoutOnAuthFailed err w)) =
     (if status401 err \<and> \<not> retry req \<and> isl (fst (adapter (refreshRequest e) w))
      then Suc (pendingLogouts w) else pendingLogouts w)"
proof (cases "status401 err \<and> \<not> retry req")
  case True
  then have r: "status401 err" "\<not> retry req" by simp_all
  obtain x w1 where a: "adapter (refreshRequest e) w = (x, w1)"
    by (cases "adapter (refreshRequest e) w")
  then have p: "pendingLogouts w1 = pendingLogouts w"
    using adapter_frame(5) [of "refreshRequest e" w] by simp
  show ?thesis
    unfolding onRejected_refresh [OF assms r] using a p r
    by (cases x) (simp_all add: logoutOnAuthFailed_def)
next
  case False
  then have "onRejected e logoutOnAuthFailed err w = (Inl err, w)"
    using assms by (intro onRejected_passthrough) auto
  with False show ?thesis by auto
qed

lemma client_pending:
  assumes "\<not> retry cfg"
  shows "pendingLogouts (snd (client e logoutOnAuthFailed cfg w)) =
     (if sessionLost w then Suc (pendingLogouts w) else pendingLogouts w)"
proof (cases "script w")
  case Nil
  then have "adapter cfg w = (Inl \<lparr>config = Some cfg, response = None\<rparr>, w\<lparr>calls := calls w @ [Http cfg]\<rparr>)"
    by (simp add: adapter_def)
  with Nil show ?thesis
    by (simp add: client.simps onRejected.simps status401_def sessionLost_def)
next
  case (Cons r rs)
  let ?w1 = "w\<lparr>calls := calls w @ [Http cfg], script := rs\<rparr>"
  show ?thesis
  proof (cases r)
    case (Fulfilled resp)
    with Cons have "adapter cfg w = (Inr resp, ?w1)" by (simp add: adapter_def)
    with Cons Fulfilled show ?thesis by (simp add: client.simps sessionLost_def)
  next
    case RejectedNoConfig
    with Cons have "adapter cfg w = (Inl \<lparr>config = None, response = None\<rparr>, ?w1)"
      by (simp add: adapter_def)
    with Cons RejectedNoConfig show ?thesis
      by (simp add: client.simps onRejected.simps sessionLost_def)
  next
    case (Rejected ro)
    let ?err = "\<lparr>config = Some cfg, response = ro\<rparr>"
    from Cons Rejected have a: "adapter cfg w = (Inl ?err, ?w1)" by (simp add: adapter_def)
    have c: "config ?err = Some cfg" by simp
    have i: "isl (fst (adapter (refreshRequest e) ?w1))
        = (case rs of Fulfilled resp # rest' \<Rightarrow> False | _ \<Rightarrow> True)"
      by (simp add: adapter_def split: list.splits reply.splits)
    have "pendingLogouts (snd (client e logoutOnAuthFailed cfg w))
        = pendingLogouts (snd (onRejected e logoutOnAuthFailed ?err ?w1))"
      using a by (simp add: client.simps)
    also have "\<dots> = (if status401 ?err \<and> \<not> retry cfg
          \<and> isl (fst (adapter (refreshRequest e) ?w1))
        then Suc (pendingLogouts ?w1) else pendingLogouts ?w1)"
      by (rule onRejected_pending [OF c])
    finally show ?thesis
      using assms Cons Rejected i
      by (cases ro) (simp_all add: status401_def sessionLost_def)
  qed
qed

lemma loadUserProfile_pending:
  "pendingLogouts (snd (loadUserProfile e w)) =
     (if sessionLost w then Suc (pendingLogouts w) else pendingLogouts w)"
proof -
  have "pendingLogouts (snd (api_get e ''/auth/me/info'' w)) =
     (if sessionLost w then Suc (pendingLogouts w) else pendingLogouts w)"
    unfolding api_get_def by (rule client_pending) simp
  then show ?thesis
    by (auto simp: loadUserProfile_def split: prod.splits sum.splits)
qed

subsection \<open>Facts about the federated login callback\<close>

lemma signinRedirectCallback_frame [simp]:
  "isProcessingCallback (snd (signinRedirectCallback w)) = isProcessingCallback w"
  "calls (snd (signinRedirectCallback w)) = calls w @ [SigninRedirectCallback]"
  by (simp_all add: signinRedirectCallback_def Let_def split: list.splits sum.splits)

lemma obtainUser_frame [simp]:
  "isProcessingCallback (snd (obtainUser code st w)) = isProcessingCallback w"
  "calls (snd (obtainUser code st w)) = calls w @ [SigninRedirectCallback]"
proof -
  obtain r w1 where s: "signinRedirectCallback w = (r, w1)"
    by (cases "signinRedirectCallback w")
  then have "isProcessingCallback w1 = isProcessingCallback w"
      "calls w1 = calls w @ [SigninRedirectCallback]"
    using signinRedirectCallback_frame [of w] by simp_all
  with s show "isProcessingCallback (snd (obtainUser code st w)) = isProcessingCallback w"
    "calls (snd (obtainUser code st w)) = calls w @ [SigninRedirectCallback]"
    by (cases r; simp add: obtainUser_def)+
qed

lemma verifyToken_flag [simp]:
  "isProcessingCallback (snd (verifyToken e usr code st w)) = isProcessingCallback w"
proof -
  obtain r w1 where s: "api_post e ''/auth/openid/verify-token'' (requestParams usr code st) w = (r, w1)"
    by (cases "api_post e ''/auth/openid/verify-token'' (requestParams usr code st) w")
  then have "isProcessingCallback w1 = isProcessingCallback w"
    using sameSession_api_post [of w e "''/auth/openid/verify-token''" "requestParams usr code st"]
    by (simp add: sameSession_def)
  with s show ?thesis
    by (cases r) (simp_all add: verifyToken_def split: body.splits)
qed

lemma verifyToken_calls:
  "\<exists>cs. calls (snd (verifyToken e usr code st w))
          = calls w @ Http (verifyRequest e (requestParams usr code st)) # cs"
proof -
  obtain r w1 where s: "api_post e ''/auth/openid/verify-token'' (requestParams usr code st) w = (r, w1)"
    by (cases "api_post e ''/auth/openid/verify-token'' (requestParams usr code st) w")
  then have "\<exists>cs. calls w1 = calls w @ Http (verifyRequest e (requestParams usr code st)) # cs"
    using client_calls [of e "verifyRequest e (requestParams usr code st)" w]
    by (simp add: api_post_def verifyRequest_def)
  with s show ?thesis
    by (cases r) (simp_all add: verifyToken_def split: body.splits)
qed

lemma verifyToken_user:
  "fst (verifyToken e usr code st w) = Inr res \<Longrightarrow> oidcUser res = usr"
  by (auto simp: verifyToken_def split: prod.splits sum.splits body.splits)

lemma handleOidcCallback_run:
  assumes "getUserManager e" "\<not> isProcessingCallback w"
    and "urlParams_get e ''code'' = Some code" "code \<noteq> []"
    and "urlParams_get e ''state'' = Some st" "st \<noteq> []"
  shows "fst (handleOidcCallback e w) =
     (case obtainUser code st (w\<lparr>isProcessingCallback := True\<rparr>) of
        (Inl err, w1) \<Rightarrow> Inl err
      | (Inr usr, w1) \<Rightarrow> fst (verifyToken e usr code st w1))"
    and "calls (snd (handleOidcCallback e w)) =
     (case obtainUser code st (w\<lparr>isProcessingCallback := True\<rparr>) of
        (Inl err, w1) \<Rightarrow> calls w1
      | (Inr usr, w1) \<Rightarrow> calls (snd (verifyToken e usr code st w1)))"
  using assms
  by (auto simp: handleOidcCallback_def handleOidcCallback_start_def
        handleOidcCallback_resume_def Let_def split: prod.splits sum.splits)

lemma obtainUser_cases:
  "idpScript w = Inl m # rest \<Longrightarrow> sublist ''Invalid token'' m \<Longrightarrow>
     fst (obtainUser code st w) = Inr (fallbackUser code st)"
  "idpScript w = Inl m # rest \<Longrightarrow> \<not> sublist ''Invalid token'' m \<Longrightarrow>
     fst (obtainUser code st w) = Inl (Error m)"
  "idpScript w = Inr u # rest \<Longrightarrow> fst (obtainUser code st w) = Inr u"
  by (auto simp: obtainUser_def signinRedirectCallback_def invalidToken_def Let_def)

subsection \<open>Unfolding for concrete inputs\<close>

lemmas eval_defs =
  initialWorld_def initialState_def browser_def callbackPage_def webUser_def appOnlyUser_def
  ok_def failed_def profileRequest_def unauthenticated_def refreshRequest_def status401_def
  adapter_def Let_def logoutOnAuthFailed_def

lemmas store_defs =
  login_def login_try_def loginRequest_def loginStart_def loadUserProfile_def getProfile_def
  logout_def clearError_def setTokens_def runPendingLogout_def api_get_def api_post_def
  client.simps onRejected.simps setState_def setItem_def storage_def persisted_def
  partialize_def JSON_stringify_def responseDataData_def responseMessage_def orElse_def
  jsOr_def truthy_def noWebAccess_def sessionInvariant_def sessionLost_def
  signedIn_def AUTH_ERRORS_UNAUTHORIZED_def AUTH_ERRORS_LOGIN_FAILED_def

lemmas oidc_defs =
  handleOidcCallback_def handleOidcCallback_start_def handleOidcCallback_resume_def
  obtainUser_def verifyToken_def
  signinRedirectCallback_def invalidToken_def fallbackUser_def requestParams_def
  getUserManager_def urlParams_get_def falsy_def verifyRequest_def sublist_code(3)

subsection \<open>The session invariant\<close>

text \<open>
  C1 (amended). After every \<open>login\<close> and every \<open>logout\<close>, whatever the state before,
  \<open>isAuthenticated\<close> implies that \<open>user\<close> is present with \<open>webAllowed \<noteq> false\<close>;
  \<open>clearError\<close> keeps the invariant; after \<open>getProfile\<close>, \<open>isAuthenticated\<close> implies that
  \<open>user\<close> is present (its \<open>webAllowed\<close> is not looked at). \<open>setTokens\<close> and
  \<open>loadUserProfile\<close> do not keep the invariant.
\<close>

theorem session_invariant_where_kept:
  "sessionInvariant (store (snd (login e uname password w)))
   \<and> sessionInvariant (store (logout e w))
   \<and> (sessionInvariant (store w) \<longrightarrow> sessionInvariant (store (clearError e w)))
   \<and> (isAuthenticated (store (snd (getProfile e w)))
        \<longrightarrow> (\<exists>u. user (store (snd (getProfile e w))) = Present u))"
  using login_invariant [of e uname password w] getProfile_user [of e w]
  by (simp add: logout_store clearError_def sessionInvariant_def)

text \<open>
  C1 (amended) on a signed-in session and on a fulfilled \<open>getProfile\<close>.
\<close>

theorem session_invariant_where_kept_witness:
  "sessionInvariant (store (signedIn []))
   \<and> sessionInvariant (store (clearError browser (signedIn [])))
   \<and> isAuthenticated (store (snd (getProfile browser
         (initialWorld [ok (UserBody (Some webUser))] []))))
   \<and> user (store (snd (getProfile browser
         (initialWorld [ok (UserBody (Some webUser))] [])))) = Present webUser"
  using session_invariant_where_kept [of browser "''u0''" "''xxxx''" "signedIn []"]
    session_invariant_where_kept [of browser "''u0''" "''xxxx''"
      "initialWorld [ok (UserBody (Some webUser))] []"]
  by (simp add: store_defs eval_defs)

text \<open>
  C1 as stated fails: \<open>setTokens\<close> on the initial state sets \<open>isAuthenticated\<close> with no
  user; \<open>getProfile\<close> accepts a user with \<open>webAllowed = false\<close>; \<open>loadUserProfile\<close>, after a
  successful \<open>login\<close>, puts such a user into the authenticated session.
\<close>

theorem session_invariant_broken:
  "\<not> sessionInvariant (store (setTokens browser ''a'' ''r'' (initialWorld [] [])))
   \<and> \<not> sessionInvariant (store (snd (getProfile browser
           (initialWorld [ok (UserBody (Some appOnlyUser))] []))))
   \<and> fst (login browser ''u0'' ''xxxx''
          (initialWorld [ok (TokenBody ''a'' ''r''), ok (UserBody (Some webUser)),
                         ok (UserBody (Some appOnlyUser))] []))
   \<and> \<not> sessionInvariant (store (snd (loadUserProfile browser
           (snd (login browser ''u0'' ''xxxx''
              (initialWorld [ok (TokenBody ''a'' ''r''), ok (UserBody (Some webUser)),
                             ok (UserBody (Some appOnlyUser))] []))))))"
  by (simp add: store_defs eval_defs)

subsection \<open>Login\<close>

text \<open>
  C2. When the server accepts the credentials (the login request is fulfilled) and the
  profile that is then loaded has \<open>webAllowed === false\<close>, \<open>login\<close> returns \<open>false\<close> and
  leaves \<open>isAuthenticated = false\<close>, \<open>user = null\<close> and \<open>error = UNAUTHORIZED\<close>.
\<close>

theorem login_without_web_access:
  assumes "fst (loginRequest e uname password w) = Inr resp"
    and "fst (loadUserProfile e (snd (loginRequest e uname password w))) = Present u"
    and "webAllowed u = Some False"
  shows "fst (login e uname password w) = False
       \<and> isAuthenticated (store (snd (login e uname password w))) = False
       \<and> user (store (snd (login e uname password w))) = Null
       \<and> error (store (snd (login e uname password w))) = Some AUTH_ERRORS_UNAUTHORIZED"
proof -
  obtain w1 where r: "loginRequest e uname password w = (Inr resp, w1)"
    using assms(1) by (cases "loginRequest e uname password w") simp
  with assms(2) have "fst (loadUserProfile e w1) = Present u" by simp
  with assms(3) show ?thesis
    unfolding login_resolved [OF r]
    by (cases "loadUserProfile e w1") (simp add: noWebAccess_def)
qed

text \<open>
  C2 at a stub backend that accepts the login and returns a profile without web access.
\<close>

theorem login_without_web_access_witness:
  "fst (loginRequest browser ''u1'' ''xxxx''
          (initialWorld [ok (TokenBody ''a'' ''r''), ok (UserBody (Some appOnlyUser))] []))
     = Inr \<lparr>status = 200, rdata = TokenBody ''a'' ''r''\<rparr>
   \<and> fst (loadUserProfile browser (snd (loginRequest browser ''u1'' ''xxxx''
          (initialWorld [ok (TokenBody ''a'' ''r''), ok (UserBody (Some appOnlyUser))] []))))
     = Present appOnlyUser
   \<and> webAllowed appOnlyUser = Some False
   \<and> fst (login browser ''u1'' ''xxxx''
          (initialWorld [ok (TokenBody ''a'' ''r''), ok (UserBody (Some appOnlyUser))] [])) = False
   \<and> user (store (snd (login browser ''u1'' ''xxxx''
          (initialWorld [ok (TokenBody ''a'' ''r''), ok (UserBody (Some appOnlyUser))] [])))) = Null
   \<and> error (store (snd (login browser ''u1'' ''xxxx''
          (initialWorld [ok (TokenBody ''a'' ''r''), ok (UserBody (Some appOnlyUser))] []))))
     = Some (JsonString ''Unauthorized'')"
proof -
  let ?w = "initialWorld [ok (TokenBody ''a'' ''r''), ok (UserBody (Some appOnlyUser))] []"
  have h1: "fst (loginRequest browser ''u1'' ''xxxx'' ?w)
      = Inr \<lparr>status = 200, rdata = TokenBody ''a'' ''r''\<rparr>"
    by (simp add: store_defs eval_defs)
  have h2: "fst (loadUserProfile browser (snd (loginRequest browser ''u1'' ''xxxx'' ?w)))
      = Present appOnlyUser"
    by (simp add: store_defs eval_defs)
  have h3: "webAllowed appOnlyUser = Some False"
    by (simp add: appOnlyUser_def)
  show ?thesis
    using login_without_web_access [OF h1 h2 h3] h1 h2 h3
    by (simp add: AUTH_ERRORS_UNAUTHORIZED_def)
qed

text \<open>
  C5 (amended). \<open>login\<close> returns a boolean for every input and every outcome of the
  backend (the \<open>catch\<close> turns every rejection into the result \<open>false\<close>), and on every exit
  \<open>isLoading\<close> is \<open>false\<close>. When \<open>api.post\<close> rejects, \<open>login\<close> returns \<open>false\<close> and
  \<open>error\<close> is the \<open>message\<close> of that rejection's response whenever it is truthy, whatever
  kind of value it is, and \<open>LOGIN_FAILED\<close> otherwise; for a 401 whose refresh fails the
  rejection is the one of the refresh call. When the login request is fulfilled, \<open>login\<close>
  returns \<open>false\<close> with \<open>error = UNAUTHORIZED\<close> exactly when no profile was loaded or its
  \<open>webAllowed\<close> is \<open>false\<close>, and \<open>true\<close> with \<open>error = null\<close> otherwise.
\<close>

theorem login_total:
  "isLoading (store (snd (login e uname password w))) = False
   \<and> (\<forall>err. fst (loginRequest e uname password w) = Inl err \<longrightarrow>
          fst (login e uname password w) = False
          \<and> error (store (snd (login e uname password w)))
              = Some (jsOr (responseMessage (Axios err)) AUTH_ERRORS_LOGIN_FAILED))
   \<and> (\<forall>resp. fst (loginRequest e uname password w) = Inr resp \<longrightarrow>
          fst (login e uname password w)
            = (\<not> noWebAccess (fst (loadUserProfile e (snd (loginRequest e uname password w)))))
          \<and> error (store (snd (login e uname password w)))
              = (if noWebAccess (fst (loadUserProfile e (snd (loginRequest e uname password w))))
                 then Some AUTH_ERRORS_UNAUTHORIZED else None))"
proof (intro conjI allI impI)
  show "isLoading (store (snd (login e uname password w))) = False"
    by (rule login_isLoading)
next
  fix err assume h: "fst (loginRequest e uname password w) = Inl err"
  show "fst (login e uname password w) = False"
    by (rule login_rejected(1) [OF h])
  show "error (store (snd (login e uname password w)))
      = Some (jsOr (responseMessage (Axios err)) AUTH_ERRORS_LOGIN_FAILED)"
    by (simp add: login_rejected(2) [OF h])
next
  fix resp assume h: "fst (loginRequest e uname password w) = Inr resp"
  show "fst (login e uname password w)
      = (\<not> noWebAccess (fst (loadUserProfile e (snd (loginRequest e uname password w)))))"
    by (rule login_fulfilled(1) [OF h])
  show "error (store (snd (login e uname password w)))
      = (if noWebAccess (fst (loadUserProfile e (snd (loginRequest e uname password w))))
         then Some AUTH_ERRORS_UNAUTHORIZED else None)"
    by (rule login_fulfilled(2) [OF h])
qed

text \<open>
  C5 (amended) for a login answered with 401 whose refresh is rejected with a message that
  is an array: the array becomes \<open>error\<close>. And for a login that is accepted with no profile
  to load: \<open>UNAUTHORIZED\<close>.
\<close>

theorem login_total_witness:
  "fst (loginRequest browser ''u0'' ''bad''
         (initialWorld [failed 401 (MessageBody (JsonString ''bad credentials'')),
                        failed 401 (MessageBody (JsonArray [JsonString ''no session'']))] []))
     = Inl \<lparr>config = Some (refreshRequest browser),
            response = Some \<lparr>status = 401,
                              rdata = MessageBody (JsonArray [JsonString ''no session''])\<rparr>\<rparr>
   \<and> \<not> fst (login browser ''u0'' ''bad''
         (initialWorld [failed 401 (MessageBody (JsonString ''bad credentials'')),
                        failed 401 (MessageBody (JsonArray [JsonString ''no session'']))] []))
   \<and> isLoading (store (snd (login browser ''u0'' ''bad''
         (initialWorld [failed 401 (MessageBody (JsonString ''bad credentials'')),
                        failed 401 (MessageBody (JsonArray [JsonString ''no session'']))] []))))
       = False
   \<and> error (store (snd (login browser ''u0'' ''bad''
         (initialWorld [failed 401 (MessageBody (JsonString ''bad credentials'')),
                        failed 401 (MessageBody (JsonArray [JsonString ''no session'']))] []))))
       = Some (JsonArray [JsonString ''no session''])
   \<and> fst (loginRequest browser ''u0'' ''xxxx''
         (initialWorld [ok (TokenBody ''a'' ''r''), failed 500 EmptyObject] []))
     = Inr \<lparr>status = 200, rdata = TokenBody ''a'' ''r''\<rparr>
   \<and> \<not> fst (login browser ''u0'' ''xxxx''
         (initialWorld [ok (TokenBody ''a'' ''r''), failed 500 EmptyObject] []))
   \<and> error (store (snd (login browser ''u0'' ''xxxx''
         (initialWorld [ok (TokenBody ''a'' ''r''), failed 500 EmptyObject] []))))
       = Some AUTH_ERRORS_UNAUTHORIZED"
proof -
  let ?w = "initialWorld [failed 401 (MessageBody (JsonString ''bad credentials'')),
                          failed 401 (MessageBody (JsonArray [JsonString ''no session'']))] []"
  let ?v = "initialWorld [ok (TokenBody ''a'' ''r''), failed 500 EmptyObject] []"
  have h: "fst (loginRequest browser ''u0'' ''bad'' ?w)
     = Inl \<lparr>config = Some (refreshRequest browser),
            response = Some \<lparr>status = 401,
                              rdata = MessageBody (JsonArray [JsonString ''no session''])\<rparr>\<rparr>"
    by (simp add: store_defs eval_defs)
  have k: "fst (loginRequest browser ''u0'' ''xxxx'' ?v)
     = Inr \<lparr>status = 200, rdata = TokenBody ''a'' ''r''\<rparr>"
    by (simp add: store_defs eval_defs)
  have n: "noWebAccess (fst (loadUserProfile browser (snd (loginRequest browser ''u0'' ''xxxx'' ?v))))"
    by (simp add: store_defs eval_defs)
  show ?thesis
    using login_total [of browser "''u0''" "''bad''" ?w] h
      login_total [of browser "''u0''" "''xxxx''" ?v] k n
    by (simp add: responseMessage_def jsOr_def truthy_def)
qed

text \<open>
  C5 as stated fails: when the rejection of the login request carries a message, that
  message becomes \<open>error\<close>; it is neither \<open>UNAUTHORIZED\<close> nor \<open>LOGIN_FAILED\<close>.
\<close>

theorem login_error_is_server_message:
  "fst (login browser ''u0'' ''xxxx''
          (initialWorld [failed 403 (MessageBody (JsonString ''Account locked''))] [])) = False
   \<and> error (store (snd (login browser ''u0'' ''xxxx''
          (initialWorld [failed 403 (MessageBody (JsonString ''Account locked''))] []))))
     = Some (JsonString ''Account locked'')
   \<and> JsonString ''Account locked'' \<noteq> AUTH_ERRORS_UNAUTHORIZED
   \<and> JsonString ''Account locked'' \<noteq> AUTH_ERRORS_LOGIN_FAILED"
  by (simp add: store_defs eval_defs)

subsection \<open>The refresh interceptor\<close>

text \<open>
  C4 (amended). A rejection without \<open>config\<close>, with a status other than 401, or of a
  request already retried is passed through untouched. For a 401 rejection of a request not
  yet retried the interceptor makes exactly one refresh call. If the refresh fails, the
  callback is invoked and the rejection of the refresh call (not the original rejection) is
  propagated. If the refresh succeeds, the original request is sent again exactly once,
  marked as retried, and the outcome of that replay is the result, whether fulfilled or
  rejected; no second refresh follows.
\<close>

theorem refresh_interceptor:
  "((config err = None \<or> \<not> status401 err \<or> (\<exists>rq. config err = Some rq \<and> retry rq))
      \<longrightarrow> onRejected e f err w = (Inl err, w))
   \<and> (config err = Some req \<and> status401 err \<and> \<not> retry req \<longrightarrow>
        (\<forall>refreshError w1. adapter (refreshRequest e) w = (Inl refreshError, w1) \<longrightarrow>
            onRejected e f err w = (Inl refreshError, f w1)
            \<and> calls w1 = calls w @ [Http (refreshRequest e)])
      \<and> (\<forall>r w1. adapter (refreshRequest e) w = (Inr r, w1) \<longrightarrow>
            onRejected e f err w = adapter (req\<lparr>retry := True\<rparr>) w1
            \<and> calls (snd (onRejected e f err w))
                = calls w @ [Http (refreshRequest e), Http (req\<lparr>retry := True\<rparr>)]))"
proof (intro conjI impI allI)
  assume "config err = None \<or> \<not> status401 err \<or> (\<exists>rq. config err = Some rq \<and> retry rq)"
  then show "onRejected e f err w = (Inl err, w)" by (rule onRejected_passthrough)
next
  fix refreshError w1
  assume h: "config err = Some req \<and> status401 err \<and> \<not> retry req"
    and a: "adapter (refreshRequest e) w = (Inl refreshError, w1)"
  from h have r: "config err = Some req" "status401 err" "\<not> retry req" by simp_all
  show "onRejected e f err w = (Inl refreshError, f w1)"
    unfolding onRejected_refresh [OF r] using a by simp
  show "calls w1 = calls w @ [Http (refreshRequest e)]"
    using adapter_calls [of "refreshRequest e" w] a by simp
next
  fix r w1
  assume h: "config err = Some req \<and> status401 err \<and> \<not> retry req"
    and a: "adapter (refreshRequest e) w = (Inr r, w1)"
  from h have c: "config err = Some req" "status401 err" "\<not> retry req" by simp_all
  show eq: "onRejected e f err w = adapter (req\<lparr>retry := True\<rparr>) w1"
    unfolding onRejected_refresh [OF c] using a by simp
  have "calls w1 = calls w @ [Http (refreshRequest e)]"
    using adapter_calls [of "refreshRequest e" w] a by simp
  then show "calls (snd (onRejected e f err w))
      = calls w @ [Http (refreshRequest e), Http (req\<lparr>retry := True\<rparr>)]"
    unfolding eq by (simp add: adapter_calls)
qed

text \<open>
  C4 (amended) for a 401 of the profile request followed by a successful refresh.
\<close>

theorem refresh_interceptor_witness:
  "config unauthenticated = Some profileRequest \<and> status401 unauthenticated
   \<and> \<not> retry profileRequest
   \<and> onRejected browser logoutOnAuthFailed unauthenticated
        (initialWorld [ok EmptyObject, ok (UserBody (Some webUser))] [])
     = adapter (profileRequest\<lparr>retry := True\<rparr>)
        ((initialWorld [ok (UserBody (Some webUser))] [])\<lparr>calls := [Http (refreshRequest browser)]\<rparr>)
   \<and> fst (onRejected browser logoutOnAuthFailed unauthenticated
        (initialWorld [ok EmptyObject, ok (UserBody (Some webUser))] []))
     = Inr \<lparr>status = 200, rdata = UserBody (Some webUser)\<rparr>
   \<and> calls (snd (onRejected browser logoutOnAuthFailed unauthenticated
        (initialWorld [ok EmptyObject, ok (UserBody (Some webUser))] [])))
     = [Http (refreshRequest browser), Http (profileRequest\<lparr>retry := True\<rparr>)]"
  using refresh_interceptor [of unauthenticated browser logoutOnAuthFailed
      "initialWorld [ok EmptyObject, ok (UserBody (Some webUser))] []" profileRequest]
  by (simp add: eval_defs)

text \<open>
  C4 as stated fails: when the refresh is rejected, the interceptor rejects with the error of
  the refresh call, which is not the original rejection; the callback has been invoked.
\<close>

theorem refresh_failure_propagates_refresh_error:
  "fst (onRejected browser logoutOnAuthFailed unauthenticated
          (initialWorld [failed 500 EmptyObject] []))
     = Inl \<lparr>config = Some (refreshRequest browser),
            response = Some \<lparr>status = 500, rdata = EmptyObject\<rparr>\<rparr>
   \<and> fst (onRejected browser logoutOnAuthFailed unauthenticated
          (initialWorld [failed 500 EmptyObject] [])) \<noteq> Inl unauthenticated
   \<and> pendingLogouts (snd (onRejected browser logoutOnAuthFailed unauthenticated
          (initialWorld [failed 500 EmptyObject] []))) = 1"
  by (simp add: onRejected.simps eval_defs)

subsection \<open>The federated login callback\<close>



text \<open>
  C6. In a callback with \<open>code\<close> and \<open>state\<close>, past the two guards: if the identity
  provider's exchange fails with a message that contains "Invalid token", the fallback
  credential is built (the code as access token, the incoming state, an empty id token),
  the backend's verification endpoint is called with \<open>access_token = code\<close>, \<open>code\<close> and
  \<open>state\<close> and no \<open>id_token\<close>, and a successful result carries that credential. If the
  exchange fails with any other message, that error is the result and no backend call is
  made. If the exchange succeeds, the provider's own user is used.
\<close>

theorem degraded_path:
  assumes "getUserManager e" "\<not> isProcessingCallback w"
    and "urlParams_get e ''code'' = Some code" "code \<noteq> []"
    and "urlParams_get e ''state'' = Some st" "st \<noteq> []"
  shows
    "(\<forall>m rest. idpScript w = Inl m # rest \<and> sublist ''Invalid token'' m \<longrightarrow>
        access_token (fallbackUser code st) = code
        \<and> userState (fallbackUser code st) = Some st
        \<and> falsy (id_token (fallbackUser code st))
        \<and> (\<exists>cs. calls (snd (handleOidcCallback e w)) =
               calls w @ SigninRedirectCallback
                 # Http (verifyRequest e
                     [(''access_token'', code), (''code'', code), (''state'', st)]) # cs)
        \<and> (\<forall>res. fst (handleOidcCallback e w) = Inr res \<longrightarrow>
               oidcUser res = fallbackUser code st))
     \<and> (\<forall>m rest. idpScript w = Inl m # rest \<and> \<not> sublist ''Invalid token'' m \<longrightarrow>
        fst (handleOidcCallback e w) = Inl (Error m)
        \<and> calls (snd (handleOidcCallback e w)) = calls w @ [SigninRedirectCallback])
     \<and> (\<forall>u rest. idpScript w = Inr u # rest \<longrightarrow>
        (\<exists>cs. calls (snd (handleOidcCallback e w)) =
               calls w @ SigninRedirectCallback
                 # Http (verifyRequest e (requestParams u code st)) # cs)
        \<and> (\<forall>res. fst (handleOidcCallback e w) = Inr res \<longrightarrow> oidcUser res = u))"
proof -
  let ?w = "w\<lparr>isProcessingCallback := True\<rparr>"
  obtain r w1 where o: "obtainUser code st ?w = (r, w1)" by (cases "obtainUser code st ?w")
  then have c1: "calls w1 = calls w @ [SigninRedirectCallback]"
    using obtainUser_frame(2) [of code st ?w] by simp
  note run = handleOidcCallback_run [OF assms]
  have params: "requestParams (fallbackUser code st) code st
      = [(''access_token'', code), (''code'', code), (''state'', st)]"
    using assms(4,6) by (simp add: requestParams_def fallbackUser_def falsy_def orElse_def)
  have ok: "\<And>usr. r = Inr usr \<Longrightarrow>
      (\<exists>cs. calls (snd (handleOidcCallback e w)) =
               calls w @ SigninRedirectCallback
                 # Http (verifyRequest e (requestParams usr code st)) # cs)
      \<and> (\<forall>res. fst (handleOidcCallback e w) = Inr res \<longrightarrow> oidcUser res = usr)"
  proof -
    fix usr assume u: "r = Inr usr"
    from verifyToken_calls [of e usr code st w1] obtain cs where
      "calls (snd (verifyToken e usr code st w1))
         = calls w1 @ Http (verifyRequest e (requestParams usr code st)) # cs" by blast
    with c1 o u have "calls (snd (handleOidcCallback e w)) =
        calls w @ SigninRedirectCallback
          # Http (verifyRequest e (requestParams usr code st)) # cs"
      by (simp add: run(2))
    moreover have "\<forall>res. fst (handleOidcCallback e w) = Inr res \<longrightarrow> oidcUser res = usr"
      using o u verifyToken_user [of e usr code st w1] by (simp add: run(1))
    ultimately show "(\<exists>cs. calls (snd (handleOidcCallback e w)) =
               calls w @ SigninRedirectCallback
                 # Http (verifyRequest e (requestParams usr code st)) # cs)
      \<and> (\<forall>res. fst (handleOidcCallback e w) = Inr res \<longrightarrow> oidcUser res = usr)"
      by blast
  qed
  show ?thesis
  proof (intro conjI allI impI)
    fix m rest
    assume h: "idpScript w = Inl m # rest \<and> sublist ''Invalid token'' m"
    then have "fst (obtainUser code st ?w) = Inr (fallbackUser code st)"
      using obtainUser_cases(1) [of ?w m rest code st] by simp
    with o have r: "r = Inr (fallbackUser code st)" by simp
    show "access_token (fallbackUser code st) = code"
      "userState (fallbackUser code st) = Some st"
      "falsy (id_token (fallbackUser code st))"
      by (simp_all add: fallbackUser_def falsy_def)
    show "\<exists>cs. calls (snd (handleOidcCallback e w)) =
               calls w @ SigninRedirectCallback
                 # Http (verifyRequest e
                     [(''access_token'', code), (''code'', code), (''state'', st)]) # cs"
      using ok [OF r] params by simp
    fix res assume "fst (handleOidcCallback e w) = Inr res"
    then show "oidcUser res = fallbackUser code st" using ok [OF r] by blast
  next
    fix m rest
    assume h: "idpScript w = Inl m # rest \<and> \<not> sublist ''Invalid token'' m"
    then have "fst (obtainUser code st ?w) = Inl (Error m)"
      using obtainUser_cases(2) [of ?w m rest code st] by simp
    with o have r: "r = Inl (Error m)" by simp
    show "fst (handleOidcCallback e w) = Inl (Error m)"
      using o r by (simp add: run(1))
    show "calls (snd (handleOidcCallback e w)) = calls w @ [SigninRedirectCallback]"
      using o r c1 by (simp add: run(2))
  next
    fix u rest
    assume h: "idpScript w = Inr u # rest"
    then have "fst (obtainUser code st ?w) = Inr u"
      using obtainUser_cases(3) [of ?w u rest code st] by simp
    with o have r: "r = Inr u" by simp
    show "\<exists>cs. calls (snd (handleOidcCallback e w)) =
               calls w @ SigninRedirectCallback
                 # Http (verifyRequest e (requestParams u code st)) # cs"
      using ok [OF r] by blast
    fix res assume "fst (handleOidcCallback e w) = Inr res"
    then show "oidcUser res = u" using ok [OF r] by blast
  qed
qed

text \<open>
  C6 for the provider error "Invalid token format".
\<close>

theorem degraded_path_witness:
  "getUserManager callbackPage
   \<and> \<not> isProcessingCallback (initialWorld [ok (TokenBody ''at'' ''rt'')] [Inl ''Invalid token format''])
   \<and> urlParams_get callbackPage ''code'' = Some ''abc''
   \<and> urlParams_get callbackPage ''state'' = Some ''xyz''
   \<and> sublist ''Invalid token'' ''Invalid token format''
   \<and> calls (snd (handleOidcCallback callbackPage
        (initialWorld [ok (TokenBody ''at'' ''rt'')] [Inl ''Invalid token format''])))
     = [SigninRedirectCallback,
        Http (verifyRequest callbackPage
          [(''access_token'', ''abc''), (''code'', ''abc''), (''state'', ''xyz'')])]
   \<and> fst (handleOidcCallback callbackPage
        (initialWorld [ok (TokenBody ''at'' ''rt'')] [Inl ''Invalid token format'']))
     = Inr \<lparr>oidcUser = fallbackUser ''abc'' ''xyz'', res_access_token = Some ''at'',
            res_refresh_token = Some ''rt''\<rparr>"
proof -
  let ?w = "initialWorld [ok (TokenBody ''at'' ''rt'')] [Inl ''Invalid token format'']"
  have h1: "getUserManager callbackPage"
    by (simp add: getUserManager_def callbackPage_def browser_def)
  have h2: "\<not> isProcessingCallback ?w" by (simp add: initialWorld_def)
  have h3: "urlParams_get callbackPage ''code'' = Some ''abc''"
    by (simp add: urlParams_get_def callbackPage_def browser_def)
  have h4: "''abc'' \<noteq> []" by simp
  have h5: "urlParams_get callbackPage ''state'' = Some ''xyz''"
    by (simp add: urlParams_get_def callbackPage_def browser_def)
  have h6: "''xyz'' \<noteq> []" by simp
  have s: "sublist ''Invalid token'' ''Invalid token format''"
    by (simp add: sublist_code(3))
  have i: "idpScript ?w = Inl ''Invalid token format'' # []" by (simp add: initialWorld_def)
  have c: "calls (snd (handleOidcCallback callbackPage ?w))
     = [SigninRedirectCallback,
        Http (verifyRequest callbackPage
          [(''access_token'', ''abc''), (''code'', ''abc''), (''state'', ''xyz'')])]"
    by (simp add: oidc_defs store_defs eval_defs)
  have f: "fst (handleOidcCallback callbackPage ?w)
     = Inr \<lparr>oidcUser = fallbackUser ''abc'' ''xyz'', res_access_token = Some ''at'',
            res_refresh_token = Some ''rt''\<rparr>"
    using degraded_path [OF h1 h2 h3 h4 h5 h6] i s
    by (simp add: oidc_defs store_defs eval_defs)
  from h1 h2 h3 h5 s c f show ?thesis by simp
qed

text \<open>
  C7 (amended). When the callback parameters lack \<open>code\<close>, \<open>handleOidcCallback\<close> fails
  and makes no network call. The failure is the error of the first check that fires:
  "OIDC authentication is not enabled" when federated login is not available, "OIDC
  callback is already being processed" when it is available and another resolution is in
  flight, and "Invalid authorization response. Missing code or state parameter." when the
  call gets past both guards.
\<close>

theorem missing_code:
  assumes "falsy (urlParams_get e ''code'')"
  shows "(\<exists>err. fst (handleOidcCallback e w) = Inl err)
       \<and> calls (snd (handleOidcCallback e w)) = calls w
       \<and> (\<not> getUserManager e \<longrightarrow>
            fst (handleOidcCallback e w) = Inl (Error ''OIDC authentication is not enabled''))
       \<and> (getUserManager e \<and> isProcessingCallback w \<longrightarrow>
            fst (handleOidcCallback e w)
              = Inl (Error ''OIDC callback is already being processed''))
       \<and> (getUserManager e \<and> \<not> isProcessingCallback w \<longrightarrow>
            fst (handleOidcCallback e w)
              = Inl (Error ''Invalid authorization response. Missing code or state parameter.''))"
  using assms
  by (auto simp: handleOidcCallback_def handleOidcCallback_start_def falsy_def Let_def
        split: option.splits)

text \<open>
  C7 (amended) with no query parameters: from the idle state in a browser, with another
  resolution in flight, and where there is no \<open>window\<close>.
\<close>

theorem missing_code_witness:
  "falsy (urlParams_get browser ''code'')
   \<and> getUserManager browser \<and> \<not> isProcessingCallback (initialWorld [] [])
   \<and> fst (handleOidcCallback browser (initialWorld [] []))
       = Inl (Error ''Invalid authorization response. Missing code or state parameter.'')
   \<and> calls (snd (handleOidcCallback browser (initialWorld [] []))) = []
   \<and> isProcessingCallback ((initialWorld [] [])\<lparr>isProcessingCallback := True\<rparr>)
   \<and> fst (handleOidcCallback browser ((initialWorld [] [])\<lparr>isProcessingCallback := True\<rparr>))
       = Inl (Error ''OIDC callback is already being processed'')
   \<and> falsy (urlParams_get (browser\<lparr>hasWindow := False\<rparr>) ''code'')
   \<and> \<not> getUserManager (browser\<lparr>hasWindow := False\<rparr>)
   \<and> fst (handleOidcCallback (browser\<lparr>hasWindow := False\<rparr>) (initialWorld [] []))
       = Inl (Error ''OIDC authentication is not enabled'')"
proof -
  have h: "falsy (urlParams_get browser ''code'')"
    by (simp add: falsy_def urlParams_get_def browser_def)
  have k: "falsy (urlParams_get (browser\<lparr>hasWindow := False\<rparr>) ''code'')"
    by (simp add: falsy_def urlParams_get_def browser_def)
  show ?thesis
    using missing_code [OF h, of "initialWorld [] []"]
      missing_code [OF h, of "(initialWorld [] [])\<lparr>isProcessingCallback := True\<rparr>"]
      missing_code [OF k, of "initialWorld [] []"] h k
    by (simp add: getUserManager_def browser_def initialWorld_def)
qed

text \<open>
  C7 as stated fails: with another resolution in flight, a call without \<open>code\<close> fails with
  the duplicate-callback error, not with the missing-code error.
\<close>

theorem missing_code_behind_guard:
  "falsy (urlParams_get browser ''code'')
   \<and> fst (handleOidcCallback browser ((initialWorld [] [])\<lparr>isProcessingCallback := True\<rparr>))
       = Inl (Error ''OIDC callback is already being processed'')
   \<and> fst (handleOidcCallback browser ((initialWorld [] [])\<lparr>isProcessingCallback := True\<rparr>))
       \<noteq> Inl (Error ''Invalid authorization response. Missing code or state parameter.'')"
  by (simp add: oidc_defs browser_def initialWorld_def)

subsection \<open>Logout, persistence and profile loading\<close>

text \<open>
  C8. \<open>logout\<close> is total (the model's \<open>catch\<close> absorbs the failure of the server call,
  and the function returns a world for every input). From every starting state it leaves
  \<open>user = null\<close>, \<open>isAuthenticated = false\<close>, \<open>error = null\<close>; the storage in use holds
  the logged-out projection or nothing under the store's name; and a second \<open>logout\<close>
  right after the first leaves the same session state and the same storages.
\<close>

theorem logout_idempotent_total:
  "user (store (logout e w)) = Null
   \<and> isAuthenticated (store (logout e w)) = False
   \<and> error (store (logout e w)) = None
   \<and> persisted e (logout e w) \<in> {None, Some loggedOutItem}
   \<and> store (logout e (logout e w)) = store (logout e w)
   \<and> localStorage (logout e (logout e w)) = localStorage (logout e w)
   \<and> sessionStorage (logout e (logout e w)) = sessionStorage (logout e w)"
  by (simp add: logout_store logout_localStorage logout_sessionStorage logout_persisted)

text \<open>
  C9 (amended). For every state the object that \<open>partialize\<close> returns has exactly the
  properties \<open>user\<close> and \<open>isAuthenticated\<close>, and what is written to storage never contains
  \<open>isLoading\<close> or \<open>error\<close>. The stored item has the field \<open>isAuthenticated\<close> and, unless
  \<open>user\<close> is \<open>undefined\<close>, the field \<open>user\<close>: the write goes through \<open>JSON.stringify\<close>,
  which drops a property that is \<open>undefined\<close>. Every \<open>set\<close> writes that item for the new
  state to the storage in use, and so does \<open>login\<close>, the action that sets an error.
\<close>

theorem persisted_projection_fields:
  "map fst (partialize s) = [''user'', ''isAuthenticated'']
   \<and> map fst (JSON_stringify (partialize s))
       = (if user s = Undefined then [''isAuthenticated''] else [''user'', ''isAuthenticated''])
   \<and> ''isLoading'' \<notin> set (map fst (JSON_stringify (partialize s)))
   \<and> ''error'' \<notin> set (map fst (JSON_stringify (partialize s)))
   \<and> (storage e \<noteq> NoopStorage \<longrightarrow>
        persisted e (setState e f w)
          = Some (PersistedState (JSON_stringify (partialize (f (store w)))) 1))
   \<and> (storage e \<noteq> NoopStorage \<longrightarrow>
        persisted e (snd (login e uname password w))
          = Some (PersistedState
               (JSON_stringify (partialize (store (snd (login e uname password w))))) 1))"
proof -
  obtain g w' where "snd (login e uname password w) = setState e g w'"
    using login_ends_with_set by blast
  then show ?thesis
    by (cases "user s") (simp_all add: partialize_def JSON_stringify_def persisted_setState)
qed

text \<open>
  C9 (amended) after a failed login in a browser: the error is set, the stored item has the
  two fields.
\<close>

theorem persisted_projection_fields_witness:
  "storage browser \<noteq> NoopStorage
   \<and> error (store (snd (login browser ''u0'' ''bad''
        (initialWorld [failed 400 EmptyObject] [])))) = Some AUTH_ERRORS_LOGIN_FAILED
   \<and> persisted browser (snd (login browser ''u0'' ''bad''
        (initialWorld [failed 400 EmptyObject] [])))
     = Some (PersistedState [(''user'', JNull), (''isAuthenticated'', JBool False)] 1)"
  using persisted_projection_fields [of initialState browser "\<lambda>s. s"
      "initialWorld [failed 400 EmptyObject] []" "''u0''" "''bad''"]
  by (simp add: store_defs eval_defs)

text \<open>
  C9 as stated fails: when the profile reply has no \<open>data\<close>, \<open>loadUserProfile\<close> stores
  \<open>undefined\<close> as \<open>user\<close>, and the item written to storage has the field
  \<open>isAuthenticated\<close> only.
\<close>

theorem persisted_projection_without_user:
  "user (store (snd (loadUserProfile browser (initialWorld [ok EmptyObject] [])))) = Undefined
   \<and> persisted browser (snd (loadUserProfile browser (initialWorld [ok EmptyObject] [])))
     = Some (PersistedState [(''isAuthenticated'', JBool False)] 1)"
  by (simp add: store_defs eval_defs)

text \<open>
  C10 (amended). When the profile request is rejected, \<open>loadUserProfile\<close> returns \<open>null\<close>
  and does nothing else: the world is the one the request left, with the session state
  (\<open>user\<close>, \<open>isAuthenticated\<close>, \<open>isLoading\<close>, \<open>error\<close>) and both storages as they were. Its
  \<open>catch\<close> starts no logout. A logout has nevertheless been started, by the interceptor's
  callback, exactly when the request was answered with status 401 and the refresh call
  that followed was rejected too.
\<close>

theorem loadUserProfile_failure_leaves_state:
  assumes "fst (api_get e ''/auth/me/info'' w) = Inl err"
  shows "fst (loadUserProfile e w) = Null
       \<and> store (snd (loadUserProfile e w)) = store w
       \<and> localStorage (snd (loadUserProfile e w)) = localStorage w
       \<and> sessionStorage (snd (loadUserProfile e w)) = sessionStorage w
       \<and> snd (loadUserProfile e w) = snd (api_get e ''/auth/me/info'' w)
       \<and> pendingLogouts (snd (loadUserProfile e w))
           = (if sessionLost w then Suc (pendingLogouts w) else pendingLogouts w)"
  using loadUserProfile_rejected [OF assms] loadUserProfile_pending [of e w]
  by (simp add: sameSession_def)

text \<open>
  C10 (amended) for a signed-in session whose profile request is answered with status 500:
  nothing changes and no logout is started.
\<close>

theorem loadUserProfile_failure_leaves_state_witness:
  "fst (api_get browser ''/auth/me/info'' (signedIn [failed 500 EmptyObject]))
     = Inl \<lparr>config = Some profileRequest,
            response = Some \<lparr>status = 500, rdata = EmptyObject\<rparr>\<rparr>
   \<and> fst (loadUserProfile browser (signedIn [failed 500 EmptyObject])) = Null
   \<and> store (snd (loadUserProfile browser (signedIn [failed 500 EmptyObject])))
     = \<lparr>user = Present webUser, isAuthenticated = True, isLoading = False, error = None\<rparr>
   \<and> \<not> sessionLost (signedIn [failed 500 EmptyObject])
   \<and> pendingLogouts (snd (loadUserProfile browser (signedIn [failed 500 EmptyObject]))) = 0"
proof -
  have h: "fst (api_get browser ''/auth/me/info'' (signedIn [failed 500 EmptyObject]))
     = Inl \<lparr>config = Some profileRequest,
            response = Some \<lparr>status = 500, rdata = EmptyObject\<rparr>\<rparr>"
    by (simp add: store_defs eval_defs)
  show ?thesis
    using loadUserProfile_failure_leaves_state [OF h] h
    by (simp add: store_defs eval_defs)
qed

text \<open>
  C10 as stated fails: when the profile request is answered with 401 and the refresh is
  rejected too, the failed profile load has started a logout through the callback given to
  \<open>createApiClient\<close>. \<open>loadUserProfile\<close> returns \<open>null\<close> with the state untouched, and the
  session of the signed-in user is cleared when the started logout runs.
\<close>

theorem session_loss_starts_logout:
  "fst (loadUserProfile browser (signedIn [failed 401 EmptyObject, failed 401 EmptyObject])) = Null
   \<and> store (snd (loadUserProfile browser
        (signedIn [failed 401 EmptyObject, failed 401 EmptyObject])))
     = store (signedIn [failed 401 EmptyObject, failed 401 EmptyObject])
   \<and> pendingLogouts (signedIn [failed 401 EmptyObject, failed 401 EmptyObject]) = 0
   \<and> pendingLogouts (snd (loadUserProfile browser
        (signedIn [failed 401 EmptyObject, failed 401 EmptyObject]))) = 1
   \<and> user (store (signedIn [failed 401 EmptyObject, failed 401 EmptyObject])) = Present webUser
   \<and> isAuthenticated (store (signedIn [failed 401 EmptyObject, failed 401 EmptyObject]))
   \<and> user (store (runPendingLogout browser (snd (loadUserProfile browser
        (signedIn [failed 401 EmptyObject, failed 401 EmptyObject]))))) = Null
   \<and> \<not> isAuthenticated (store (runPendingLogout browser (snd (loadUserProfile browser
        (signedIn [failed 401 EmptyObject, failed 401 EmptyObject])))))"
  by (simp add: store_defs eval_defs)

end
